theory Spec2Isabelle
  imports Complex_Main "HOL-Library.AList"
begin

section \<open>JavaScript numbers and arrays\<close>

text \<open>
  The extension computes with JavaScript numbers. They are modelled as exact numbers:
  coordinates read from style strings and rotations are \<open>real\<close>, grid rows and columns
  (results of \<open>Math.round\<close>) are \<open>int\<close>. Rounding error, infinities and the sign of
  zero have no counterpart here. \<open>NaN\<close> can only enter through \<open>parseFloat\<close>; it is
  made explicit there and nowhere else.
\<close>

text \<open>\<open>Math.trunc\<close>: the integer part, towards zero.\<close>

definition js_trunc :: "real \<Rightarrow> int" where
  "js_trunc x = (if 0 \<le> x then \<lfloor>x\<rfloor> else \<lceil>x\<rceil>)"

text \<open>
  The remainder operator \<open>a % b\<close> for a non-zero divisor: the result has the sign of the
  dividend (\<open>-90 % 360\<close> is \<open>-90\<close>).
\<close>

definition js_rem :: "real \<Rightarrow> real \<Rightarrow> real" where
  "js_rem a b = a - b * of_int (js_trunc (a / b))"

text \<open>\<open>Math.round\<close>: the nearest integer, a tie going up (\<open>Math.round(-0.5)\<close> is \<open>0\<close>).\<close>

definition Math_round :: "real \<Rightarrow> int" where
  "Math_round x = \<lfloor>x + 1 / 2\<rfloor>"

text \<open>\<open>x || 0\<close> on a number: zero is the only falsy number of the model.\<close>

definition or_zero :: "real \<Rightarrow> real" where
  "or_zero x = (if x = 0 then 0 else x)"

text \<open>\<open>Array.prototype.indexOf\<close>: the first index holding the value, \<open>-1\<close> when there is none.\<close>

fun indexOf :: "'a list \<Rightarrow> 'a \<Rightarrow> int" where
  "indexOf [] x = - 1"
| "indexOf (y # ys) x =
     (if y = x then 0 else (let i = indexOf ys x in if i = - 1 then - 1 else i + 1))"

text \<open>
  \<open>xs[i]\<close> for a number \<open>i\<close>: the element when \<open>i\<close> is an integer within the array,
  \<open>undefined\<close> (here \<open>None\<close>) otherwise, also for a fractional index.
\<close>

definition js_at :: "'a list \<Rightarrow> real \<Rightarrow> 'a option" where
  "js_at xs i =
     (if of_int \<lfloor>i\<rfloor> = i \<and> 0 \<le> i \<and> i < of_nat (length xs) then Some (xs ! nat \<lfloor>i\<rfloor>)
      else None)"

text \<open>
  A counting loop \<open>for (let i = start; i < n; i++)\<close> that collects one result per
  iteration.
\<close>

function forLoop :: "int \<Rightarrow> int \<Rightarrow> (int \<Rightarrow> 'a) \<Rightarrow> 'a list" where
  "forLoop i n body = (if i < n then body i # forLoop (i + 1) n body else [])"
  by pat_completeness auto
termination
  by (relation "measure (\<lambda>(i, n, body). nat (n - i))") auto

declare forLoop.simps [simp del]

section \<open>Data model\<close>

text \<open>
  A position \<open>{left, top}\<close> as read from a style attribute. The field \<open>top\<close> is
  written \<open>top'\<close>, since \<open>top\<close> is the greatest element of a lattice in HOL.
\<close>

record position =
  left :: real
  top' :: real

text \<open>A grid position \<open>{row, col}\<close>.\<close>

record gridPosition =
  row :: int
  col :: int

text \<open>
  The grid is a JavaScript object keyed by the string \<open>`${row},${col}`\<close>. Two integer
  pairs give the same string exactly when they are equal, so the key is the pair. An
  object lists its keys in the order of their first insertion, and assigning to a key
  that exists keeps its place: an association list under \<open>AList.update\<close>.
\<close>

type_synonym gridKey = "int \<times> int"

type_synonym 'n grid = "(gridKey \<times> 'n) list"

record dimensions =
  minRow :: int
  maxRow :: int
  minCol :: int
  maxCol :: int
  rows :: int
  cols :: int

text \<open>
  A board as both parsers return it, over the parser's own node type \<open>'n\<close>. The fields
  \<open>stats\<close> and \<open>container\<close> are read by no operation modelled here and are left out.
  \<open>position\<close> is \<open>null\<close> (\<open>None\<close>) when the board's style gives none.
\<close>

record 'n board =
  index :: nat
  name :: string
  fullName :: string
  rotation :: real
  position :: "position option"
  nodes :: "'n list"
  grid :: "'n grid"
  dimensions :: dimensions

section \<open>The table generator\<close>

text \<open>\<open>getNodeAt(grid, row, col)\<close>: \<open>grid[`${row},${col}`] || null\<close>.\<close>

definition getNodeAt :: "'n grid \<Rightarrow> int \<Rightarrow> int \<Rightarrow> 'n option" where
  "getNodeAt g r c = map_of g (r, c)"

text \<open>
  \<open>createDataCell(node, row, col)\<close> builds the table cell of a node, or the cell
  labelled \<open>Empty\<close> for \<open>null\<close>. The source does not read its \<open>row\<close> and \<open>col\<close> arguments.
\<close>

datatype 'n cell = EmptyCell | DataCell 'n

definition createDataCell :: "'n option \<Rightarrow> int \<Rightarrow> int \<Rightarrow> 'n cell" where
  "createDataCell node r c = (case node of None \<Rightarrow> EmptyCell | Some n \<Rightarrow> DataCell n)"

text \<open>\<open>transformCoordinates\<close>: a \<open>switch\<close> on the rotation with the unrotated case as default.\<close>

definition transformCoordinates ::
  "int \<Rightarrow> int \<Rightarrow> int \<Rightarrow> int \<Rightarrow> int \<Rightarrow> int \<Rightarrow> real \<Rightarrow> gridPosition" where
  "transformCoordinates displayRow displayCol minR maxR minC maxC rot =
     (if rot = 90 then \<lparr>row = maxR - displayCol, col = minC + displayRow\<rparr>
      else if rot = 180 then \<lparr>row = maxR - displayRow, col = maxC - displayCol\<rparr>
      else if rot = 270 then \<lparr>row = minR + displayCol, col = maxC - displayRow\<rparr>
      else \<lparr>row = minR + displayRow, col = minC + displayCol\<rparr>)"

text \<open>The normalisation \<open>((rotation % 360) + 360) % 360\<close> that every consumer of a rotation applies.\<close>

definition normalizedRotation :: "real \<Rightarrow> real" where
  "normalizedRotation rot = js_rem (js_rem rot 360 + 360) 360"

text \<open>The extents of the displayed table, as \<open>generateTable\<close> computes them.\<close>

definition displayRows :: "dimensions \<Rightarrow> real \<Rightarrow> int" where
  "displayRows d normalized =
     (if normalized = 90 \<or> normalized = 270 then maxCol d - minCol d + 1
      else maxRow d - minRow d + 1)"

definition displayCols :: "dimensions \<Rightarrow> real \<Rightarrow> int" where
  "displayCols d normalized =
     (if normalized = 90 \<or> normalized = 270 then maxRow d - minRow d + 1
      else maxCol d - minCol d + 1)"

text \<open>
  \<open>generateTable\<close>: the rows of the table body, each the list of its cells, in the order
  the two nested loops append them.
\<close>

definition generateTable :: "'n board \<Rightarrow> 'n cell list list" where
  "generateTable b =
     (let d = dimensions b;
          rot = or_zero (rotation b);
          normalized = normalizedRotation rot
      in forLoop 0 (displayRows d normalized) (\<lambda>displayRow.
           forLoop 0 (displayCols d normalized) (\<lambda>displayCol.
             let p = transformCoordinates displayRow displayCol
                       (minRow d) (maxRow d) (minCol d) (maxCol d) normalized;
                 node = getNodeAt (grid b) (row p) (col p)
             in createDataCell node (displayRow + 1) (displayCol + 1))))"

text \<open>
  \<open>formatRotation\<close>: the text of a rotation. The fallback template
  \<open>`Rotated ${degrees} degrees`\<close> is kept symbolic, carrying the number it prints.
\<close>

datatype rotationText = Text string | RotatedDegrees real

definition rotationMap :: "real \<Rightarrow> string option" where
  "rotationMap k =
     (if k = 0 then Some ''No rotation''
      else if k = 90 then Some ''Rotated right once''
      else if k = 180 then Some ''Rotated right twice''
      else if k = 270 then Some ''Rotated right thrice''
      else None)"

definition formatRotation :: "real \<Rightarrow> rotationText" where
  "formatRotation degrees =
     (case rotationMap (normalizedRotation degrees) of
        Some s \<Rightarrow> Text s
      | None \<Rightarrow> RotatedDegrees degrees)"

section \<open>Regular expressions of the style parsers\<close>

text \<open>
  Style attributes are modelled as strings of 8-bit characters. The regular expressions
  of the two parsers are sequences of four kinds of atoms: a literal, a greedy
  \<open>c*\<close> or \<open>c+\<close> over a character class, and an alternative of literals
  \<open>(?:a|b)\<close>; one atom may sit in a capturing group.
\<close>

datatype rx_atom =
    Lit string
  | Star "char \<Rightarrow> bool"
  | Plus "char \<Rightarrow> bool"
  | Alt "string list"

datatype rx_item = Plain rx_atom | Group rx_atom

fun atom_of :: "rx_item \<Rightarrow> rx_atom" where
  "atom_of (Plain a) = a"
| "atom_of (Group a) = a"

fun is_group :: "rx_item \<Rightarrow> bool" where
  "is_group (Plain a) = False"
| "is_group (Group a) = True"

text \<open>
  The ways one atom can match at the start of a string, as (matched text, rest), in the
  order a backtracking matcher tries them: a greedy repetition takes the longest run
  first and gives characters back one at a time; an alternative tries its branches from
  left to right.
\<close>

fun atom_splits :: "rx_atom \<Rightarrow> string \<Rightarrow> (string \<times> string) list" where
  "atom_splits (Lit l) s = (if take (length l) s = l then [(l, drop (length l) s)] else [])"
| "atom_splits (Star c) s =
     map (\<lambda>k. (take k s, drop k s)) (rev [0 ..< Suc (length (takeWhile c s))])"
| "atom_splits (Plus c) s =
     map (\<lambda>k. (take k s, drop k s)) (rev [1 ..< Suc (length (takeWhile c s))])"
| "atom_splits (Alt ls) s =
     concat (map (\<lambda>l. if take (length l) s = l then [(l, drop (length l) s)] else []) ls)"

text \<open>
  Matching a sequence at the start of a string: the first way that lets the rest of the
  sequence match wins. The result lists the texts of the capturing groups.
\<close>

fun match_here :: "rx_item list \<Rightarrow> string \<Rightarrow> string list option"
  and try_splits :: "rx_item list \<Rightarrow> bool \<Rightarrow> (string \<times> string) list \<Rightarrow> string list option" where
  "match_here [] s = Some []"
| "match_here (it # rest) s = try_splits rest (is_group it) (atom_splits (atom_of it) s)"
| "try_splits rest g [] = None"
| "try_splits rest g ((m, s') # alts) =
     (case match_here rest s' of
        Some caps \<Rightarrow> Some (if g then m # caps else caps)
      | None \<Rightarrow> try_splits rest g alts)"

text \<open>\<open>str.match(re)\<close> without the \<open>g\<close> flag: the match that starts leftmost.\<close>

fun js_match :: "rx_item list \<Rightarrow> string \<Rightarrow> string list option" where
  "js_match re [] = match_here re []"
| "js_match re (x # xs) =
     (case match_here re (x # xs) of
        Some caps \<Rightarrow> Some caps
      | None \<Rightarrow> js_match re xs)"

text \<open>\<open>match[1]\<close> of a successful match of an expression with one group.\<close>

definition group1 :: "string list \<Rightarrow> string" where
  "group1 caps = (case caps of [] \<Rightarrow> [] | c # _ \<Rightarrow> c)"

text \<open>
  The class \<open>\s\<close> (the white space among the characters below 256), the class \<open>\d\<close>,
  and the class \<open>[-\d.]\<close>.
\<close>

definition is_space :: "char \<Rightarrow> bool" where
  "is_space c = (of_char c \<in> {9, 10, 11, 12, 13, 32, 160 :: nat})"

definition is_digit :: "char \<Rightarrow> bool" where
  "is_digit c = (48 \<le> (of_char c :: nat) \<and> (of_char c :: nat) \<le> 57)"

definition is_numchar :: "char \<Rightarrow> bool" where
  "is_numchar c = (c = CHR ''-'' \<or> is_digit c \<or> c = CHR ''.'')"

text \<open>
  \<open>parseFloat\<close> on a text over \<open>[-\d.]\<close>, which is all the capturing groups can hand
  to it: an optional minus sign, digits, and an optional fraction; the text after that
  is ignored. Without any digit the source gets \<open>NaN\<close>, here \<open>None\<close>.
\<close>

definition digits_value :: "string \<Rightarrow> nat" where
  "digits_value ds = foldl (\<lambda>acc c. 10 * acc + (of_char c - 48)) 0 ds"

definition parseFloat :: "string \<Rightarrow> real option" where
  "parseFloat s =
     (let negative = (take 1 s = ''-'');
          s1 = (if negative then drop 1 s else s);
          intPart = takeWhile is_digit s1;
          rest = dropWhile is_digit s1;
          fracPart = (if take 1 rest = ''.'' then takeWhile is_digit (drop 1 rest) else [])
      in if intPart = [] \<and> fracPart = [] then None
         else let magnitude = of_nat (digits_value intPart)
                    + of_nat (digits_value fracPart) / 10 ^ length fracPart
              in Some (if negative then - magnitude else magnitude))"

text \<open>
  A position object with a \<open>NaN\<close> coordinate, or a \<open>NaN\<close> rotation, has no counterpart
  among the exact numbers of the model. The source carries such a value on; the model
  stops there with \<open>Inl NotANumber\<close>, apart from \<open>null\<close> (\<open>Inr None\<close>) and from a
  parsed value, so what is proved about parsed nodes and boards is proved for the
  inputs in which every matched number text has a digit.
\<close>

datatype parse_error = NotANumber


definition make_position :: "string \<Rightarrow> string \<Rightarrow> parse_error + position option" where
  "make_position l t =
     (case (parseFloat l, parseFloat t) of
        (Some x, Some y) \<Rightarrow> Inr (Some \<lparr>left = x, top' = y\<rparr>)
      | _ \<Rightarrow> Inl NotANumber)"

text \<open>MaxrollParser: \<open>/left:\s*([-\d.]+)(?:em|px)/\<close> and \<open>/top:\s*([-\d.]+)(?:em|px)/\<close>.\<close>

definition Maxroll_leftRe :: "rx_item list" where
  "Maxroll_leftRe =
     [Plain (Lit ''left:''), Plain (Star is_space), Group (Plus is_numchar), Plain (Alt [''em'', ''px''])]"

definition Maxroll_topRe :: "rx_item list" where
  "Maxroll_topRe =
     [Plain (Lit ''top:''), Plain (Star is_space), Group (Plus is_numchar), Plain (Alt [''em'', ''px''])]"

definition Maxroll_parsePosition :: "string \<Rightarrow> parse_error + position option" where
  "Maxroll_parsePosition style =
     (case (js_match Maxroll_leftRe style, js_match Maxroll_topRe style) of
        (Some leftMatch, Some topMatch) \<Rightarrow> make_position (group1 leftMatch) (group1 topMatch)
      | _ \<Rightarrow> Inr None)"






section \<open>Nodes and grids\<close>

datatype edge = NORTH | EAST | SOUTH | WEST

text \<open>
  A node object. Both parsers build nodes with \<open>position\<close>, \<open>gridPosition\<close>,
  \<open>rotation\<close> and \<open>isGate\<close>; the board record already uses the names \<open>position\<close> and
  \<open>rotation\<close>, so the node's fields are \<open>nodePosition\<close> and \<open>nodeRotation\<close>. A property
  that a parser does not set (\<open>gateEdge\<close> on Mobalytics, \<open>connectsTo\<close> before the
  connection pass, \<open>isGlyph\<close> on plain Mobalytics nodes) reads as \<open>undefined\<close>, which
  is \<open>None\<close> or \<open>False\<close> here. \<open>connectsTo\<close> is the pair of \<open>index\<close> and \<open>name\<close>. The
  display fields \<open>element\<close>, \<open>type\<close>, \<open>stat\<close>, \<open>glyphName\<close>, \<open>isSelected\<close> and
  \<open>isStart\<close> are read by no operation modelled here and are left out.
\<close>

record node =
  nodePosition :: position
  gridPosition :: gridPosition
  nodeRotation :: real
  isGate :: bool
  isGlyph :: bool
  gateEdge :: "edge option"
  connectsTo :: "(nat \<times> string) option"

text \<open>\<open>positionToGrid\<close> of MaxrollParser (\<open>GRID_SPACING: 1\<close>) and of ParagonParser (\<open>GRID_SPACING: 8\<close>).\<close>

definition Maxroll_GRID_SPACING :: real where
  "Maxroll_GRID_SPACING = 1"

definition Paragon_GRID_SPACING :: real where
  "Paragon_GRID_SPACING = 8"

definition Maxroll_positionToGrid :: "position \<Rightarrow> gridPosition" where
  "Maxroll_positionToGrid p =
     \<lparr>row = Math_round (top' p / Maxroll_GRID_SPACING),
      col = Math_round (left p / Maxroll_GRID_SPACING)\<rparr>"

definition Paragon_positionToGrid :: "position \<Rightarrow> gridPosition" where
  "Paragon_positionToGrid p =
     \<lparr>row = Math_round (top' p / Paragon_GRID_SPACING),
      col = Math_round (left p / Paragon_GRID_SPACING)\<rparr>"

text \<open>
  \<open>buildGrid\<close>, \<open>getGridDimensions\<close> and \<open>getNodeAt\<close> have the same text in both
  parsers. \<open>buildGrid\<close> assigns \<open>grid[key] = node\<close> for the nodes in order, with
  the key \<open>`${node.gridPosition.row},${node.gridPosition.col}`\<close>.
\<close>

definition nodeKey :: "node \<Rightarrow> gridKey" where
  "nodeKey n = (row (gridPosition n), col (gridPosition n))"

definition buildGrid :: "node list \<Rightarrow> node grid" where
  "buildGrid ns = fold (\<lambda>n g. AList.update (nodeKey n) n g) ns []"

definition getGridDimensions :: "'n grid \<Rightarrow> dimensions" where
  "getGridDimensions g =
     (let positions = map (\<lambda>(r, c). \<lparr>row = r, col = c\<rparr>) (map fst g)
      in if length positions = 0
         then \<lparr>minRow = 0, maxRow = 0, minCol = 0, maxCol = 0, rows = 0, cols = 0\<rparr>
         else
           let minR = Min (set (map row positions));
               maxR = Max (set (map row positions));
               minC = Min (set (map col positions));
               maxC = Max (set (map col positions))
           in \<lparr>minRow = minR, maxRow = maxR, minCol = minC, maxCol = maxC,
               rows = maxR - minR + 1, cols = maxC - minC + 1\<rparr>)"

text \<open>
  \<open>elements.forEach(el => { const n = parse(el); if (n) out.push(n); })\<close>, stopping at
  a \<open>NaN\<close>.
\<close>

fun collectNodes :: "('e \<Rightarrow> parse_error + 'a option) \<Rightarrow> 'e list \<Rightarrow> parse_error + 'a list" where
  "collectNodes parse [] = Inr []"
| "collectNodes parse (el # els) =
     (case parse el of
        Inl e \<Rightarrow> Inl e
      | Inr r \<Rightarrow>
          (case collectNodes parse els of
             Inl e \<Rightarrow> Inl e
           | Inr out \<Rightarrow> Inr (case r of None \<Rightarrow> out | Some n \<Rightarrow> n # out)))"

text \<open>
  The loop of \<open>parseAllBoards\<close>: board number \<open>index + 1\<close>, and a board is kept when
  it has a node.
\<close>

fun parseBoardsFrom ::
  "('c \<Rightarrow> nat \<Rightarrow> parse_error + node board) \<Rightarrow> nat \<Rightarrow> 'c list \<Rightarrow> parse_error + node board list" where
  "parseBoardsFrom parseBoard i [] = Inr []"
| "parseBoardsFrom parseBoard i (c # cs) =
     (case parseBoard c (i + 1) of
        Inl e \<Rightarrow> Inl e
      | Inr b \<Rightarrow>
          (case parseBoardsFrom parseBoard (i + 1) cs of
             Inl e \<Rightarrow> Inl e
           | Inr boards \<Rightarrow> Inr (if length (nodes b) > 0 then b # boards else boards)))"

section \<open>MaxrollParser\<close>

text \<open>
  What the parser reads of a node element: its style attribute (the empty string when
  absent), its class list, and the class lists of its descendants, which
  \<open>querySelector\<close> searches.
\<close>

record element =
  style :: string
  classList :: "string list"
  descendantClasses :: "string list list"

text \<open>\<open>element.querySelector('.d4t-edge.' + c)\<close> finds something.\<close>

definition hasEdgeMarker :: "element \<Rightarrow> string \<Rightarrow> bool" where
  "hasEdgeMarker el c =
     list_ex (\<lambda>classes. ''d4t-edge'' \<in> set classes \<and> c \<in> set classes) (descendantClasses el)"

definition parseGateEdge :: "element \<Rightarrow> edge option" where
  "parseGateEdge el =
     (if hasEdgeMarker el ''d4t-n'' then Some NORTH
      else if hasEdgeMarker el ''d4t-s'' then Some SOUTH
      else if hasEdgeMarker el ''d4t-e'' then Some EAST
      else if hasEdgeMarker el ''d4t-w'' then Some WEST
      else None)"

definition Maxroll_parseNodeElement :: "element \<Rightarrow> parse_error + node option" where
  "Maxroll_parseNodeElement el =
     (case Maxroll_parsePosition (style el) of
        Inl e \<Rightarrow> Inl e
      | Inr None \<Rightarrow> Inr None
      | Inr (Some pos) \<Rightarrow>
          let gate = (''d4t-gate'' \<in> set (classList el));
              socket = (''d4t-socket'' \<in> set (classList el))
          in Inr (Some \<lparr>nodePosition = pos,
                         gridPosition = Maxroll_positionToGrid pos,
                         nodeRotation = 0,
                         isGate = gate,
                         isGlyph = socket,
                         gateEdge = (if gate then parseGateEdge el else None),
                         connectsTo = None\<rparr>))"

definition getDataEdge :: "gridPosition \<Rightarrow> dimensions \<Rightarrow> edge option" where
  "getDataEdge gridPos d =
     (let atTop = (row gridPos = minRow d);
          atBottom = (row gridPos = maxRow d);
          atLeft = (col gridPos = minCol d);
          atRight = (col gridPos = maxCol d)
      in if atTop then Some NORTH
         else if atBottom then Some SOUTH
         else if atLeft then Some WEST
         else if atRight then Some EAST
         else None)"

text \<open>The operator \<open>%\<close> on integers: the sign of the dividend.\<close>

definition js_rem_int :: "int \<Rightarrow> int \<Rightarrow> int" where
  "js_rem_int a b = sgn a * (\<bar>a\<bar> mod \<bar>b\<bar>)"

definition calculateRotation :: "edge \<Rightarrow> edge \<Rightarrow> int" where
  "calculateRotation dataEdge visualEdge =
     (let edges = [NORTH, EAST, SOUTH, WEST];
          dataIndex = indexOf edges dataEdge;
          visualIndex = indexOf edges visualEdge
      in if dataIndex = - 1 \<or> visualIndex = - 1 then 0
         else
           let expectedIndex = js_rem_int (dataIndex + 2) 4;
               steps = js_rem_int (visualIndex - expectedIndex + 4) 4
           in steps * 90)"

text \<open>The \<open>for ... of\<close> loop of \<open>determineBoardRotation\<close> over the filtered gates.\<close>

fun rotationOfGates :: "node list \<Rightarrow> dimensions \<Rightarrow> int" where
  "rotationOfGates [] d = 0"
| "rotationOfGates (gate # gates) d =
     (case (getDataEdge (gridPosition gate) d, gateEdge gate) of
        (Some dataEdge, Some visualEdge) \<Rightarrow> calculateRotation dataEdge visualEdge
      | _ \<Rightarrow> rotationOfGates gates d)"

definition determineBoardRotation :: "node list \<Rightarrow> dimensions \<Rightarrow> int" where
  "determineBoardRotation ns d =
     (let gates = filter (\<lambda>n. isGate n \<and> gateEdge n \<noteq> None) ns
      in if length gates = 0 then 0 else rotationOfGates gates d)"

text \<open>
  What \<open>parseBoard\<close> reads of a board element: its style, the name and full name that
  \<open>parseBoardInfo\<close> takes from the header texts, and its node elements in document
  order. The glyph name that \<open>parseBoard\<close> writes into the socket node changes only the
  display fields.
\<close>

record boardElement =
  boardStyle :: string
  boardName :: string
  boardFullName :: string
  nodeElements :: "element list"

definition Maxroll_parseNodes :: "boardElement \<Rightarrow> parse_error + node list" where
  "Maxroll_parseNodes boardEl = collectNodes Maxroll_parseNodeElement (nodeElements boardEl)"

definition Maxroll_parseBoard :: "boardElement \<Rightarrow> nat \<Rightarrow> parse_error + node board" where
  "Maxroll_parseBoard boardEl boardIndex =
     (case Maxroll_parseNodes boardEl of
        Inl e \<Rightarrow> Inl e
      | Inr ns \<Rightarrow>
          (case Maxroll_parsePosition (boardStyle boardEl) of
             Inl e \<Rightarrow> Inl e
           | Inr pos \<Rightarrow>
               let g = buildGrid ns;
                   d = getGridDimensions g;
                   rot = determineBoardRotation ns d
               in Inr \<lparr>index = boardIndex, name = boardName boardEl,
                        fullName = boardFullName boardEl, rotation = of_int rot,
                        position = pos, nodes = ns, grid = g, dimensions = d\<rparr>))"

text \<open>\<open>parseAllBoards\<close>: no boards without the embed container (\<open>None\<close>).\<close>

definition Maxroll_parseAllBoards :: "boardElement list option \<Rightarrow> parse_error + node board list" where
  "Maxroll_parseAllBoards embedContainer =
     (case embedContainer of
        None \<Rightarrow> Inr []
      | Some boardElements \<Rightarrow> parseBoardsFrom Maxroll_parseBoard 0 boardElements)"

text \<open>
  \<open>calculateGateConnections\<close> of MaxrollParser returns in its first statement; the
  matching code after the \<open>return\<close> never runs.
\<close>

definition Maxroll_calculateGateConnections :: "node board list \<Rightarrow> node board list" where
  "Maxroll_calculateGateConnections boards = boards"

section \<open>ParagonParser (Mobalytics)\<close>









subsection \<open>Gate connections\<close>

datatype side = TOP | RIGHT | BOTTOM | LEFT



text \<open>
  \<open>rotateDirection\<close>: \<open>directions[newIndex]\<close> is \<open>undefined\<close> (\<open>None\<close>) when the rotation
  is no multiple of 90.
\<close>

definition rotateDirection :: "side \<Rightarrow> real \<Rightarrow> side option" where
  "rotateDirection e rot =
     (let directions = [TOP, RIGHT, BOTTOM, LEFT];
          edgeIndex = indexOf directions e;
          rotationSteps = normalizedRotation rot / 90;
          newIndex = js_rem (of_int edgeIndex + rotationSteps) 4
      in js_at directions newIndex)"




section \<open>Notions of the specification\<close>

text \<open>
  The definitions of this section are not taken from the source. They give names to
  the notions in which the specification states its properties, and the theorems below
  compare the source with them.
\<close>

text \<open>The index of an edge in the cyclic ordering [NORTH, EAST, SOUTH, WEST].\<close>

fun edgeIndex :: "edge \<Rightarrow> int" where
  "edgeIndex NORTH = 0"
| "edgeIndex EAST = 1"
| "edgeIndex SOUTH = 2"
| "edgeIndex WEST = 3"









section \<open>Scenarios\<close>

text \<open>A board with two plain nodes, at grid positions (0, 0) and (1, 2).\<close>

definition scenario_node :: "int \<Rightarrow> int \<Rightarrow> node" where
  "scenario_node r c =
     \<lparr>nodePosition = \<lparr>left = 8 * of_int c, top' = 8 * of_int r\<rparr>,
      gridPosition = \<lparr>row = r, col = c\<rparr>,
      nodeRotation = 0, isGate = False, isGlyph = False, gateEdge = None, connectsTo = None\<rparr>"

definition scenario_board :: "real \<Rightarrow> node board" where
  "scenario_board rot =
     \<lparr>index = 1, name = ''Starter'', fullName = [], rotation = rot, position = None,
      nodes = [scenario_node 0 0, scenario_node 1 2],
      grid = buildGrid [scenario_node 0 0, scenario_node 1 2],
      dimensions = getGridDimensions (buildGrid [scenario_node 0 0, scenario_node 1 2])\<rparr>"

text \<open>Maxroll gates on a board of three rows and three columns.\<close>

definition scenario_gate :: "int \<Rightarrow> int \<Rightarrow> edge option \<Rightarrow> node" where
  "scenario_gate r c e =
     \<lparr>nodePosition = \<lparr>left = of_int c, top' = of_int r\<rparr>,
      gridPosition = \<lparr>row = r, col = c\<rparr>,
      nodeRotation = 0, isGate = True, isGlyph = False, gateEdge = e, connectsTo = None\<rparr>"

definition scenario_3x3 :: dimensions where
  "scenario_3x3 = \<lparr>minRow = 0, maxRow = 2, minCol = 0, maxCol = 2, rows = 3, cols = 3\<rparr>"

text \<open>
  A Maxroll page with two boards; each has an active gate, and the second board has an
  element without a position. \<open>maxroll_boards\<close> are the boards parsed from it.
\<close>

definition maxroll_first :: boardElement where
  "maxroll_first =
     \<lparr>boardStyle = ''left: 0em; top: 0em'', boardName = ''Start'', boardFullName = ''1. Start'',
      nodeElements =
        [\<lparr>style = ''left: 10em; top: 0em'',
          classList = [''d4t-node'', ''d4t-gate'', ''d4t-active''],
          descendantClasses = [[''d4t-edge'', ''d4t-s'']]\<rparr>,
         \<lparr>style = ''left: 10em; top: 1em'',
          classList = [''d4t-node'', ''d4t-r1'', ''d4t-active''],
          descendantClasses = [[''d4t-icon'']]\<rparr>]\<rparr>"

definition maxroll_second :: boardElement where
  "maxroll_second =
     \<lparr>boardStyle = ''left: 0em; top: 21em'', boardName = ''Castle'', boardFullName = ''2. Castle'',
      nodeElements =
        [\<lparr>style = ''left: 10px; top: 0px'',
          classList = [''d4t-node'', ''d4t-gate'', ''d4t-active''],
          descendantClasses = [[''d4t-edge'', ''d4t-n'']]\<rparr>,
         \<lparr>style = ''display: none'', classList = [''d4t-node''], descendantClasses = []\<rparr>]\<rparr>"

definition maxroll_page :: "boardElement list option" where
  "maxroll_page = Some [maxroll_first, maxroll_second]"

definition maxroll_boards :: "node board list" where
  "maxroll_boards =
     [\<lparr>index = 1, name = ''Start'', fullName = ''1. Start'', rotation = 0,
       position = Some \<lparr>left = 0, top' = 0\<rparr>,
       nodes = [scenario_gate 0 10 (Some SOUTH), (scenario_gate 1 10 None)\<lparr>isGate := False\<rparr>],
       grid = [((0, 10), scenario_gate 0 10 (Some SOUTH)),
               ((1, 10), (scenario_gate 1 10 None)\<lparr>isGate := False\<rparr>)],
       dimensions = \<lparr>minRow = 0, maxRow = 1, minCol = 10, maxCol = 10, rows = 2, cols = 1\<rparr>\<rparr>,
      \<lparr>index = 2, name = ''Castle'', fullName = ''2. Castle'', rotation = 180,
       position = Some \<lparr>left = 0, top' = 21\<rparr>,
       nodes = [scenario_gate 0 10 (Some NORTH)],
       grid = [((0, 10), scenario_gate 0 10 (Some NORTH))],
       dimensions = \<lparr>minRow = 0, maxRow = 0, minCol = 10, maxCol = 10, rows = 1, cols = 1\<rparr>\<rparr>]"





section \<open>Properties of the table generator\<close>

lemma forLoop_upto: "forLoop i n body = map body [i..n - 1]"
proof (induction i n body rule: forLoop.induct)
  case (1 i n body)
  show ?case
  proof (cases "i < n")
    case True
    then have "[i..n - 1] = i # [i + 1..n - 1]" by (simp add: upto_rec1)
    with True 1 show ?thesis by (simp add: forLoop.simps [of i n])
  next
    case False
    then show ?thesis by (simp add: forLoop.simps [of i n])
  qed
qed

lemma or_zero_id: "or_zero x = x"
  by (simp add: or_zero_def)

lemma js_rem_nonneg: "0 \<le> a \<Longrightarrow> 0 < b \<Longrightarrow> js_rem a b = a - b * of_int \<lfloor>a / b\<rfloor>"
  by (simp add: js_rem_def js_trunc_def)

lemma js_rem_lower: "- 360 < js_rem r 360"
proof (cases "0 \<le> r")
  case True
  have "of_int \<lfloor>r / 360\<rfloor> \<le> r / 360" by (rule of_int_floor_le)
  then have "360 * of_int \<lfloor>r / 360\<rfloor> \<le> r" by simp
  with True show ?thesis by (simp add: js_rem_def js_trunc_def)
next
  case False
  have "of_int \<lceil>r / 360\<rceil> < r / 360 + 1" by linarith
  then have "360 * of_int \<lceil>r / 360\<rceil> < r + 360" by simp
  with False show ?thesis by (simp add: js_rem_def js_trunc_def)
qed

text \<open>The double remainder is the remainder of the floored division, for every number.\<close>

lemma normalizedRotation_floor: "normalizedRotation r = r - 360 * of_int \<lfloor>r / 360\<rfloor>"
proof -
  define k where "k = js_trunc (r / 360)"
  have x: "js_rem r 360 = r - 360 * of_int k" by (simp add: js_rem_def k_def)
  have pos: "0 \<le> js_rem r 360 + 360" using js_rem_lower [of r] by simp
  have "(js_rem r 360 + 360) / 360 = r / 360 + of_int (1 - k)" by (simp add: x field_simps)
  then have fl: "\<lfloor>(js_rem r 360 + 360) / 360\<rfloor> = \<lfloor>r / 360\<rfloor> + (1 - k)"
    by (simp only: floor_add_int)
  show ?thesis
    unfolding normalizedRotation_def
    by (simp only: js_rem_nonneg [OF pos] fl) (simp add: x algebra_simps)
qed

lemma normalizedRotation_period: "normalizedRotation (r + 360 * of_int k) = normalizedRotation r"
proof -
  have "(r + 360 * of_int k) / 360 = r / 360 + of_int k" by (simp add: field_simps)
  then have "\<lfloor>(r + 360 * of_int k) / 360\<rfloor> = \<lfloor>r / 360\<rfloor> + k" by (simp only: floor_add_int)
  then show ?thesis by (simp add: normalizedRotation_floor algebra_simps)
qed

lemma normalizedRotation_quarter: "normalizedRotation (90 * of_int m) = 90 * of_int (m mod 4)"
proof -
  have "(90 * real_of_int m) / 360 = of_int m / of_int 4" by simp
  then have "\<lfloor>(90 * real_of_int m) / 360\<rfloor> = m div 4" by (simp only: floor_divide_of_int_eq)
  moreover have "m = 4 * (m div 4) + m mod 4" by simp
  then have "real_of_int m = 4 * of_int (m div 4) + of_int (m mod 4)"
    by (metis of_int_add of_int_mult of_int_numeral)
  ultimately show ?thesis by (simp add: normalizedRotation_floor)
qed

lemma normalizedRotation_fixed: "r \<in> {0, 90, 180, 270} \<Longrightarrow> normalizedRotation r = r"
  using normalizedRotation_quarter [of 0] normalizedRotation_quarter [of 1]
    normalizedRotation_quarter [of 2] normalizedRotation_quarter [of 3] by auto

lemma scenario_grid:
  "buildGrid [scenario_node 0 0, scenario_node 1 2] =
     [((0, 0), scenario_node 0 0), ((1, 2), scenario_node 1 2)]"
  by (simp add: buildGrid_def nodeKey_def scenario_node_def)

lemma scenario_dims:
  "getGridDimensions [((0, 0), scenario_node 0 0), ((1, 2), scenario_node 1 2)] =
     \<lparr>minRow = 0, maxRow = 1, minCol = 0, maxCol = 2, rows = 2, cols = 3\<rparr>"
  by (simp add: getGridDimensions_def)

text \<open>
  C2. For a board with rotation 0, 90, 180 or 270, \<open>generateTable\<close> scans the display
  positions row by row, from 0, over the rotated extents (the numbers of rows and of
  columns change places at 90 and 270), and shows at display position
  (\<open>displayRow\<close>, \<open>displayCol\<close>) the node at the grid position
  (\<open>minRow + displayRow\<close>, \<open>minCol + displayCol\<close>) at 0,
  (\<open>maxRow - displayCol\<close>, \<open>minCol + displayRow\<close>) at 90,
  (\<open>maxRow - displayRow\<close>, \<open>maxCol - displayCol\<close>) at 180 and
  (\<open>minRow + displayCol\<close>, \<open>maxCol - displayRow\<close>) at 270.
\<close>

theorem generateTable_projection:
  fixes b :: "'n board"
  defines "d \<equiv> dimensions b"
  defines "cell \<equiv> \<lambda>r c. createDataCell (getNodeAt (grid b) r c)"
  shows
    "(rotation b = 0 \<longrightarrow> generateTable b =
        map (\<lambda>displayRow. map (\<lambda>displayCol.
              cell (minRow d + displayRow) (minCol d + displayCol) (displayRow + 1) (displayCol + 1))
            [0..maxCol d - minCol d]) [0..maxRow d - minRow d]) \<and>
     (rotation b = 90 \<longrightarrow> generateTable b =
        map (\<lambda>displayRow. map (\<lambda>displayCol.
              cell (maxRow d - displayCol) (minCol d + displayRow) (displayRow + 1) (displayCol + 1))
            [0..maxRow d - minRow d]) [0..maxCol d - minCol d]) \<and>
     (rotation b = 180 \<longrightarrow> generateTable b =
        map (\<lambda>displayRow. map (\<lambda>displayCol.
              cell (maxRow d - displayRow) (maxCol d - displayCol) (displayRow + 1) (displayCol + 1))
            [0..maxCol d - minCol d]) [0..maxRow d - minRow d]) \<and>
     (rotation b = 270 \<longrightarrow> generateTable b =
        map (\<lambda>displayRow. map (\<lambda>displayCol.
              cell (minRow d + displayCol) (maxCol d - displayRow) (displayRow + 1) (displayCol + 1))
            [0..maxRow d - minRow d]) [0..maxCol d - minCol d])"
proof -
  have n: "normalizedRotation (or_zero r) = r" if "r \<in> {0, 90, 180, 270}" for r
    using that by (simp add: or_zero_def normalizedRotation_fixed)
  have g: "generateTable b =
      map (\<lambda>displayRow. map (\<lambda>displayCol.
          cell (row (transformCoordinates displayRow displayCol (minRow d) (maxRow d) (minCol d) (maxCol d) r))
               (col (transformCoordinates displayRow displayCol (minRow d) (maxRow d) (minCol d) (maxCol d) r))
               (displayRow + 1) (displayCol + 1))
        [0..displayCols d r - 1]) [0..displayRows d r - 1]"
    if "rotation b = r" "r \<in> {0, 90, 180, 270}" for r
    using that n [of r] by (simp add: generateTable_def forLoop_upto d_def cell_def Let_def)
  have "rotation b = 0 \<longrightarrow> generateTable b =
        map (\<lambda>displayRow. map (\<lambda>displayCol.
              cell (minRow d + displayRow) (minCol d + displayCol) (displayRow + 1) (displayCol + 1))
            [0..maxCol d - minCol d]) [0..maxRow d - minRow d]"
    using g [of 0] by (simp add: displayRows_def displayCols_def transformCoordinates_def)
  moreover have "rotation b = 90 \<longrightarrow> generateTable b =
        map (\<lambda>displayRow. map (\<lambda>displayCol.
              cell (maxRow d - displayCol) (minCol d + displayRow) (displayRow + 1) (displayCol + 1))
            [0..maxRow d - minRow d]) [0..maxCol d - minCol d]"
    using g [of 90] by (simp add: displayRows_def displayCols_def transformCoordinates_def)
  moreover have "rotation b = 180 \<longrightarrow> generateTable b =
        map (\<lambda>displayRow. map (\<lambda>displayCol.
              cell (maxRow d - displayRow) (maxCol d - displayCol) (displayRow + 1) (displayCol + 1))
            [0..maxCol d - minCol d]) [0..maxRow d - minRow d]"
    using g [of 180] by (simp add: displayRows_def displayCols_def transformCoordinates_def)
  moreover have "rotation b = 270 \<longrightarrow> generateTable b =
        map (\<lambda>displayRow. map (\<lambda>displayCol.
              cell (minRow d + displayCol) (maxCol d - displayRow) (displayRow + 1) (displayCol + 1))
            [0..maxRow d - minRow d]) [0..maxCol d - minCol d]"
    using g [of 270] by (simp add: displayRows_def displayCols_def transformCoordinates_def)
  ultimately show ?thesis by blast
qed

theorem generateTable_projection_witness:
  "generateTable (scenario_board 0) =
     [[DataCell (scenario_node 0 0), EmptyCell, EmptyCell],
      [EmptyCell, EmptyCell, DataCell (scenario_node 1 2)]] \<and>
   generateTable (scenario_board 90) =
     [[EmptyCell, DataCell (scenario_node 0 0)],
      [EmptyCell, EmptyCell],
      [DataCell (scenario_node 1 2), EmptyCell]] \<and>
   generateTable (scenario_board 180) =
     [[DataCell (scenario_node 1 2), EmptyCell, EmptyCell],
      [EmptyCell, EmptyCell, DataCell (scenario_node 0 0)]] \<and>
   generateTable (scenario_board 270) =
     [[EmptyCell, DataCell (scenario_node 1 2)],
      [EmptyCell, EmptyCell],
      [DataCell (scenario_node 0 0), EmptyCell]]"
  using generateTable_projection [of "scenario_board 0"]
    generateTable_projection [of "scenario_board 90"]
    generateTable_projection [of "scenario_board 180"]
    generateTable_projection [of "scenario_board 270"]
  by (simp add: scenario_board_def scenario_grid scenario_dims getNodeAt_def
      createDataCell_def upto.simps)

text \<open>
  C3. Let \<open>R\<close> be 0, 90, 180 or 270 and take any dimensions. The table projected at
  \<open>R\<close> has \<open>displayRows\<close> rows and \<open>displayCols\<close> columns, numbered from 0; projecting
  that table again at \<open>(360 - R) % 360\<close> and composing the two coordinate transforms
  leads from the display position (\<open>r - minRow\<close>, \<open>c - minCol\<close>) of the second table
  back to the grid position (\<open>r\<close>, \<open>c\<close>): every grid position, occupied or not, returns
  to itself.
\<close>

theorem transformCoordinates_roundtrip:
  fixes minR maxR minC maxC r c :: int
  assumes "R \<in> {0, 90, 180, 270}"
  defines "back \<equiv> js_rem (360 - R) 360"
  defines "d \<equiv> \<lparr>minRow = minR, maxRow = maxR, minCol = minC, maxCol = maxC,
                   rows = maxR - minR + 1, cols = maxC - minC + 1\<rparr>"
  defines "p \<equiv> transformCoordinates (r - minR) (c - minC)
                  0 (displayRows d R - 1) 0 (displayCols d R - 1) back"
  shows "transformCoordinates (row p) (col p) minR maxR minC maxC R = \<lparr>row = r, col = c\<rparr>"
proof -
  consider "R = 0" | "R = 90" | "R = 180" | "R = 270" using assms(1) by auto
  then show ?thesis
  proof cases
    case 1
    then show ?thesis
      by (simp add: p_def back_def d_def js_rem_def js_trunc_def transformCoordinates_def
          displayRows_def displayCols_def)
  next
    case 2
    then show ?thesis
      by (simp add: p_def back_def d_def js_rem_def js_trunc_def transformCoordinates_def
          displayRows_def displayCols_def)
  next
    case 3
    then show ?thesis
      by (simp add: p_def back_def d_def js_rem_def js_trunc_def transformCoordinates_def
          displayRows_def displayCols_def)
  next
    case 4
    then show ?thesis
      by (simp add: p_def back_def d_def js_rem_def js_trunc_def transformCoordinates_def
          displayRows_def displayCols_def)
  qed
qed

theorem transformCoordinates_roundtrip_witness:
  "(90 :: real) \<in> {0, 90, 180, 270} \<and>
   transformCoordinates 1 0 0 2 0 1 270 = \<lparr>row = 0, col = 0\<rparr> \<and>
   transformCoordinates 0 0 5 6 7 9 90 = \<lparr>row = 6, col = 7\<rparr>"
  using transformCoordinates_roundtrip
    [where R = 90 and minR = 5 and maxR = 6 and minC = 7 and maxC = 9 and r = 6 and c = 7]
  by (simp add: displayRows_def displayCols_def js_rem_def js_trunc_def transformCoordinates_def)


text \<open>
  C10. \<open>rotateDirection\<close>, \<open>generateTable\<close> and \<open>formatRotation\<close> normalise the
  rotation as \<open>((rotation % 360) + 360) % 360\<close> before using it. So for a rotation
  \<open>r\<close> that is an integer multiple of 90, negative ones included, and every integer
  \<open>k\<close>, each of the three gives the same result for \<open>r\<close> and for \<open>r + 360 k\<close>; a
  rotation of \<open>-90\<close> behaves as 270.
\<close>

theorem rotation_modulo_360:
  fixes b :: "'n board"
  assumes "r = 90 * of_int m"
  shows "rotateDirection e (r + 360 * of_int k) = rotateDirection e r \<and>
         generateTable (b\<lparr>rotation := r + 360 * of_int k\<rparr>) = generateTable (b\<lparr>rotation := r\<rparr>) \<and>
         formatRotation (r + 360 * of_int k) = formatRotation r"
proof -
  have n: "normalizedRotation (r + 360 * of_int k) = normalizedRotation r"
    by (rule normalizedRotation_period)
  have "m mod 4 \<in> {0, 1, 2, 3}" by auto
  then have "normalizedRotation r \<in> {0, 90, 180, 270}"
    using normalizedRotation_quarter [of m] assms by auto
  then have "rotationMap (normalizedRotation r) \<noteq> None"
    by (auto simp: rotationMap_def)
  then have f: "formatRotation (r + 360 * of_int k) = formatRotation r"
    by (auto simp: formatRotation_def n)
  have d: "rotateDirection e (r + 360 * of_int k) = rotateDirection e r"
    by (simp add: rotateDirection_def n)
  have g: "generateTable (b\<lparr>rotation := r + 360 * of_int k\<rparr>) = generateTable (b\<lparr>rotation := r\<rparr>)"
    by (simp add: generateTable_def or_zero_id n)
  from d g f show ?thesis by blast
qed

theorem rotation_modulo_360_witness:
  "(- 90 :: real) = 90 * of_int (- 1) \<and>
   rotateDirection TOP (- 90) = rotateDirection TOP 270 \<and>
   generateTable (scenario_board (- 90)) = generateTable (scenario_board 270) \<and>
   formatRotation (- 90) = formatRotation 270"
  using rotation_modulo_360 [of "- 90" "- 1" TOP 1 "scenario_board 0"]
  by (simp add: scenario_board_def)

section \<open>Properties of positions, grids and dimensions\<close>

lemma Math_round_round: "Math_round x = round x"
  by (simp add: Math_round_def round_def)

lemma Math_round_near:
  assumes "0 < s" and "\<bar>x - s * of_int n\<bar> < s / 2"
  shows "Math_round (x / s) = n"
proof -
  from assms have lo: "s * of_int n - s / 2 < x" and hi: "x < s * of_int n + s / 2"
    by linarith+
  from lo assms(1) have "of_int n \<le> x / s + 1 / 2" by (simp add: field_simps)
  moreover from hi assms(1) have "x / s + 1 / 2 < of_int n + 1" by (simp add: field_simps)
  ultimately show ?thesis unfolding Math_round_def by (rule floor_unique)
qed

text \<open>
  C8, as amended. \<open>positionToGrid\<close> returns \<open>{row: round(top / spacing), col: round(left /
  spacing)}\<close>, with spacing 1 on Maxroll and 8 on Mobalytics, where \<open>round\<close> is the
  nearest integer and a tie goes up. Two positions whose coordinates both lie less than
  half the spacing away from the same grid point (\<open>c\<close> times the spacing to the left,
  \<open>r\<close> times the spacing from the top) map to the same grid position, which is
  \<open>{row: r, col: c}\<close>.
\<close>

theorem positionToGrid_rounds:
  "Maxroll_positionToGrid p = \<lparr>row = round (top' p / 1), col = round (left p / 1)\<rparr> \<and>
   Paragon_positionToGrid p = \<lparr>row = round (top' p / 8), col = round (left p / 8)\<rparr> \<and>
   (\<bar>left p - 1 * of_int c\<bar> < 1 / 2 \<and> \<bar>top' p - 1 * of_int r\<bar> < 1 / 2 \<and>
    \<bar>left q - 1 * of_int c\<bar> < 1 / 2 \<and> \<bar>top' q - 1 * of_int r\<bar> < 1 / 2 \<longrightarrow>
      Maxroll_positionToGrid p = \<lparr>row = r, col = c\<rparr> \<and>
      Maxroll_positionToGrid q = Maxroll_positionToGrid p) \<and>
   (\<bar>left p - 8 * of_int c\<bar> < 8 / 2 \<and> \<bar>top' p - 8 * of_int r\<bar> < 8 / 2 \<and>
    \<bar>left q - 8 * of_int c\<bar> < 8 / 2 \<and> \<bar>top' q - 8 * of_int r\<bar> < 8 / 2 \<longrightarrow>
      Paragon_positionToGrid p = \<lparr>row = r, col = c\<rparr> \<and>
      Paragon_positionToGrid q = Paragon_positionToGrid p)"
proof -
  have a: "Maxroll_positionToGrid p = \<lparr>row = round (top' p / 1), col = round (left p / 1)\<rparr>"
    by (simp add: Maxroll_positionToGrid_def Maxroll_GRID_SPACING_def Math_round_round)
  have b: "Paragon_positionToGrid p = \<lparr>row = round (top' p / 8), col = round (left p / 8)\<rparr>"
    by (simp add: Paragon_positionToGrid_def Paragon_GRID_SPACING_def Math_round_round)
  have c: "Maxroll_positionToGrid u = \<lparr>row = r, col = c\<rparr>"
    if "\<bar>left u - 1 * of_int c\<bar> < 1 / 2" "\<bar>top' u - 1 * of_int r\<bar> < 1 / 2" for u
    using Math_round_near [of 1 "left u" c] Math_round_near [of 1 "top' u" r] that
    by (simp add: Maxroll_positionToGrid_def Maxroll_GRID_SPACING_def)
  have d: "Paragon_positionToGrid u = \<lparr>row = r, col = c\<rparr>"
    if "\<bar>left u - 8 * of_int c\<bar> < 8 / 2" "\<bar>top' u - 8 * of_int r\<bar> < 8 / 2" for u
    using Math_round_near [of 8 "left u" c] Math_round_near [of 8 "top' u" r] that
    by (simp add: Paragon_positionToGrid_def Paragon_GRID_SPACING_def)
  from a b c [of p] c [of q] d [of p] d [of q] show ?thesis by simp
qed

theorem positionToGrid_rounds_witness:
  "(\<bar>left \<lparr>left = 5, top' = 11\<rparr> - 8 * of_int 1\<bar> < 8 / 2 \<and>
    \<bar>top' \<lparr>left = 5, top' = 11\<rparr> - 8 * of_int 1\<bar> < 8 / 2 \<and>
    \<bar>left \<lparr>left = 119 / 10, top' = 41 / 10\<rparr> - 8 * of_int 1\<bar> < 8 / 2 \<and>
    \<bar>top' \<lparr>left = 119 / 10, top' = 41 / 10\<rparr> - 8 * of_int 1\<bar> < 8 / 2) \<and>
   Paragon_positionToGrid \<lparr>left = 5, top' = 11\<rparr> = \<lparr>row = 1, col = 1\<rparr> \<and>
   Paragon_positionToGrid \<lparr>left = 119 / 10, top' = 41 / 10\<rparr> =
     Paragon_positionToGrid \<lparr>left = 5, top' = 11\<rparr> \<and>
   (\<bar>left \<lparr>left = 6 / 10, top' = 14 / 10\<rparr> - 1 * of_int 1\<bar> < 1 / 2 \<and>
    \<bar>top' \<lparr>left = 6 / 10, top' = 14 / 10\<rparr> - 1 * of_int 1\<bar> < 1 / 2 \<and>
    \<bar>left \<lparr>left = 14 / 10, top' = 6 / 10\<rparr> - 1 * of_int 1\<bar> < 1 / 2 \<and>
    \<bar>top' \<lparr>left = 14 / 10, top' = 6 / 10\<rparr> - 1 * of_int 1\<bar> < 1 / 2) \<and>
   Maxroll_positionToGrid \<lparr>left = 6 / 10, top' = 14 / 10\<rparr> = \<lparr>row = 1, col = 1\<rparr> \<and>
   Maxroll_positionToGrid \<lparr>left = 14 / 10, top' = 6 / 10\<rparr> =
     Maxroll_positionToGrid \<lparr>left = 6 / 10, top' = 14 / 10\<rparr>"
proof -
  have h8: "\<bar>left \<lparr>left = 5, top' = 11\<rparr> - 8 * of_int 1\<bar> < 8 / 2 \<and>
    \<bar>top' \<lparr>left = 5, top' = 11\<rparr> - 8 * of_int 1\<bar> < 8 / 2 \<and>
    \<bar>left \<lparr>left = 119 / 10, top' = 41 / 10\<rparr> - 8 * of_int 1\<bar> < 8 / 2 \<and>
    \<bar>top' \<lparr>left = 119 / 10, top' = 41 / 10\<rparr> - 8 * of_int 1\<bar> < 8 / 2"
    by simp
  have h1: "\<bar>left \<lparr>left = 6 / 10, top' = 14 / 10\<rparr> - 1 * of_int 1\<bar> < 1 / 2 \<and>
    \<bar>top' \<lparr>left = 6 / 10, top' = 14 / 10\<rparr> - 1 * of_int 1\<bar> < 1 / 2 \<and>
    \<bar>left \<lparr>left = 14 / 10, top' = 6 / 10\<rparr> - 1 * of_int 1\<bar> < 1 / 2 \<and>
    \<bar>top' \<lparr>left = 14 / 10, top' = 6 / 10\<rparr> - 1 * of_int 1\<bar> < 1 / 2"
    by simp
  from h8 h1
    positionToGrid_rounds [of "\<lparr>left = 5, top' = 11\<rparr>" 1 1 "\<lparr>left = 119 / 10, top' = 41 / 10\<rparr>"]
    positionToGrid_rounds [of "\<lparr>left = 6 / 10, top' = 14 / 10\<rparr>" 1 1 "\<lparr>left = 14 / 10, top' = 6 / 10\<rparr>"]
  show ?thesis by blast
qed

text \<open>
  C8, as stated, fails: on Maxroll (spacing 1) the positions with \<open>left\<close> 0.4 and 0.6
  differ by less than half the spacing and map to the columns 0 and 1.
\<close>

theorem positionToGrid_jitter_counterexample:
  "\<bar>left \<lparr>left = 4 / 10, top' = 0\<rparr> - left \<lparr>left = 6 / 10, top' = 0\<rparr>\<bar> < Maxroll_GRID_SPACING / 2 \<and>
   \<bar>top' \<lparr>left = 4 / 10, top' = 0\<rparr> - top' \<lparr>left = 6 / 10, top' = 0\<rparr>\<bar> < Maxroll_GRID_SPACING / 2 \<and>
   Maxroll_positionToGrid \<lparr>left = 4 / 10, top' = 0\<rparr> \<noteq>
     Maxroll_positionToGrid \<lparr>left = 6 / 10, top' = 0\<rparr>"
  by (simp add: Maxroll_GRID_SPACING_def Maxroll_positionToGrid_def Math_round_def)






lemma fold_update_values:
  "snd ` set (fold (\<lambda>n g. AList.update (nodeKey n) n g) ns g) \<subseteq> snd ` set g \<union> set ns"
proof (induction ns arbitrary: g)
  case Nil
  then show ?case by simp
next
  case (Cons n ns)
  have "snd ` set (AList.update (nodeKey n) n g) \<subseteq> snd ` set g \<union> {n}"
    by (induction g) auto
  with Cons [of "AList.update (nodeKey n) n g"] show ?case by auto
qed

lemma buildGrid_values: "(k, n) \<in> set (buildGrid ns) \<Longrightarrow> n \<in> set ns"
  using fold_update_values [of ns "[]"] by (force simp: buildGrid_def)


lemma Maxroll_parseBoard_fields:
  "Maxroll_parseBoard be i = Inr b \<Longrightarrow>
     Maxroll_parseNodes be = Inr (nodes b) \<and>
     grid b = buildGrid (nodes b) \<and> dimensions b = getGridDimensions (grid b) \<and>
     rotation b = of_int (determineBoardRotation (nodes b) (dimensions b))"
  by (auto simp: Maxroll_parseBoard_def Let_def split: sum.splits)






text \<open>
  C7, as amended. For a grid that is not empty, \<open>getGridDimensions\<close> returns dimensions
  with \<open>rows = maxRow - minRow + 1\<close> and \<open>cols = maxCol - minCol + 1\<close>. It returns
  \<open>{minRow: 0, maxRow: 0, minCol: 0, maxCol: 0, rows: 0, cols: 0}\<close> if and only if the
  grid is empty.
\<close>

theorem getGridDimensions_counts:
  "(g \<noteq> [] \<longrightarrow>
      rows (getGridDimensions g) = maxRow (getGridDimensions g) - minRow (getGridDimensions g) + 1 \<and>
      cols (getGridDimensions g) = maxCol (getGridDimensions g) - minCol (getGridDimensions g) + 1) \<and>
   (getGridDimensions g = \<lparr>minRow = 0, maxRow = 0, minCol = 0, maxCol = 0, rows = 0, cols = 0\<rparr>
      \<longleftrightarrow> g = [])"
proof -
  have a: "rows (getGridDimensions g) = maxRow (getGridDimensions g) - minRow (getGridDimensions g) + 1 \<and>
      cols (getGridDimensions g) = maxCol (getGridDimensions g) - minCol (getGridDimensions g) + 1"
    if "g \<noteq> []"
    using that by (simp add: getGridDimensions_def Let_def)
  have nz: "rows (getGridDimensions g) \<noteq> 0" if "g \<noteq> []"
  proof -
    define rs where "rs = map row (map (\<lambda>(r, c). \<lparr>row = r, col = c\<rparr>) (map fst g))"
    have "rs \<noteq> []" using that by (simp add: rs_def)
    then have "hd rs \<in> set rs" by simp
    then have "Min (set rs) \<le> hd rs" "hd rs \<le> Max (set rs)" by simp_all
    then have le: "Min (set rs) \<le> Max (set rs)" by linarith
    have "rows (getGridDimensions g) = Max (set rs) - Min (set rs) + 1"
      using that unfolding rs_def by (simp add: getGridDimensions_def Let_def)
    with le show ?thesis by linarith
  qed
  have b: "getGridDimensions g = \<lparr>minRow = 0, maxRow = 0, minCol = 0, maxCol = 0, rows = 0, cols = 0\<rparr>
      \<longleftrightarrow> g = []"
  proof
    assume "getGridDimensions g = \<lparr>minRow = 0, maxRow = 0, minCol = 0, maxCol = 0, rows = 0, cols = 0\<rparr>"
    then have "rows (getGridDimensions g) = 0" by simp
    then show "g = []" using nz by blast
  next
    assume "g = []"
    then show "getGridDimensions g = \<lparr>minRow = 0, maxRow = 0, minCol = 0, maxCol = 0, rows = 0, cols = 0\<rparr>"
      by (simp add: getGridDimensions_def)
  qed
  from a b show ?thesis by blast
qed

theorem getGridDimensions_counts_witness:
  "[((0, 0), scenario_node 0 0), ((1, 2), scenario_node 1 2)] \<noteq> [] \<and>
   getGridDimensions [((0, 0), scenario_node 0 0), ((1, 2), scenario_node 1 2)] =
     \<lparr>minRow = 0, maxRow = 1, minCol = 0, maxCol = 2, rows = 2, cols = 3\<rparr> \<and>
   rows (getGridDimensions [((0, 0), scenario_node 0 0), ((1, 2), scenario_node 1 2)]) = 1 - 0 + 1 \<and>
   cols (getGridDimensions [((0, 0), scenario_node 0 0), ((1, 2), scenario_node 1 2)]) = 2 - 0 + 1 \<and>
   getGridDimensions [((0, 0), scenario_node 0 0), ((1, 2), scenario_node 1 2)] \<noteq>
     \<lparr>minRow = 0, maxRow = 0, minCol = 0, maxCol = 0, rows = 0, cols = 0\<rparr>"
  using getGridDimensions_counts [of "[((0, 0), scenario_node 0 0), ((1, 2), scenario_node 1 2)]"]
  by (simp add: scenario_dims)

text \<open>
  C7, as stated, fails on the empty grid: there \<open>rows\<close> is 0, and
  \<open>maxRow - minRow + 1\<close> is 1.
\<close>

theorem getGridDimensions_empty_counterexample:
  "rows (getGridDimensions ([] :: node grid)) \<noteq>
     maxRow (getGridDimensions ([] :: node grid)) - minRow (getGridDimensions ([] :: node grid)) + 1"
  by (simp add: getGridDimensions_def)

section \<open>Properties of the Maxroll parser\<close>

lemma calculateRotation_formula:
  "calculateRotation dataEdge visualEdge =
     ((edgeIndex visualEdge - (edgeIndex dataEdge + 2) mod 4 + 4) mod 4) * 90"
  by (cases dataEdge; cases visualEdge) (simp_all add: calculateRotation_def js_rem_int_def)

lemma rotationOfGates_find:
  "rotationOfGates gates d =
     (case find (\<lambda>n. getDataEdge (gridPosition n) d \<noteq> None \<and> gateEdge n \<noteq> None) gates of
        None \<Rightarrow> 0
      | Some g \<Rightarrow> calculateRotation (the (getDataEdge (gridPosition g) d)) (the (gateEdge g)))"
  by (induction gates) (auto split: option.splits)

lemma find_filter: "find P (filter Q xs) = find (\<lambda>x. Q x \<and> P x) xs"
  by (induction xs) simp_all

lemma getDataEdge_None:
  "getDataEdge gp d \<noteq> None \<longleftrightarrow>
     row gp = minRow d \<or> row gp = maxRow d \<or> col gp = minCol d \<or> col gp = maxCol d"
  by (simp add: getDataEdge_def)

lemma getDataEdge_the:
  "the (getDataEdge gp d) =
     (if row gp = minRow d then NORTH else if row gp = maxRow d then SOUTH
      else if col gp = minCol d then WEST else if col gp = maxCol d then EAST else the None)"
  by (simp add: getDataEdge_def)

lemma maxroll_second_parsed: "Maxroll_parseBoard maxroll_second 2 = Inr (maxroll_boards ! 1)"
  by code_simp

text \<open>
  C1. The rotation of a board that the Maxroll parser produces is what
  \<open>determineBoardRotation\<close> returns for the nodes and the dimensions of the board.
  \<open>determineBoardRotation\<close> takes the first node, in node order, that is a gate,
  has an edge direction, and whose grid position lies on a boundary of the dimensions.
  The data edge of that gate is the boundary it lies on, looked for in the order North
  (\<open>row = minRow\<close>), South (\<open>row = maxRow\<close>), West (\<open>col = minCol\<close>), East
  (\<open>col = maxCol\<close>). The result is
  \<open>((index(edgeDirection) - ((index(dataEdge) + 2) mod 4) + 4) mod 4) * 90\<close> with the
  indices of the ordering [NORTH, EAST, SOUTH, WEST], and 0 when no node qualifies.
\<close>

theorem determineBoardRotation_first_gate:
  defines "onBoundary \<equiv> \<lambda>gp d.
     row gp = minRow d \<or> row gp = maxRow d \<or> col gp = minCol d \<or> col gp = maxCol d"
  defines "dataEdge \<equiv> \<lambda>gp d.
     if row gp = minRow d then NORTH else if row gp = maxRow d then SOUTH
     else if col gp = minCol d then WEST else EAST"
  shows "determineBoardRotation ns d =
     (case find (\<lambda>n. isGate n \<and> gateEdge n \<noteq> None \<and> onBoundary (gridPosition n) d) ns of
        None \<Rightarrow> 0
      | Some g \<Rightarrow>
          ((edgeIndex (the (gateEdge g)) - (edgeIndex (dataEdge (gridPosition g) d) + 2) mod 4 + 4)
             mod 4) * 90) \<and>
   (Maxroll_parseBoard boardEl boardIndex = Inr b \<longrightarrow>
      rotation b = of_int (determineBoardRotation (nodes b) (dimensions b)) \<and>
      dimensions b = getGridDimensions (buildGrid (nodes b)))"
proof -
  let ?P = "\<lambda>n. isGate n \<and> gateEdge n \<noteq> None \<and> onBoundary (gridPosition n) d"
  let ?gates = "filter (\<lambda>n. isGate n \<and> gateEdge n \<noteq> None) ns"
  have f: "find (\<lambda>n. getDataEdge (gridPosition n) d \<noteq> None \<and> gateEdge n \<noteq> None) ?gates = find ?P ns"
    unfolding find_filter getDataEdge_None onBoundary_def
    by (rule arg_cong2 [where f = find]) auto
  have r: "determineBoardRotation ns d = rotationOfGates ?gates d"
    by (cases ?gates) (simp_all add: determineBoardRotation_def Let_def)
  have main: "determineBoardRotation ns d =
      (case find ?P ns of
         None \<Rightarrow> 0
       | Some g \<Rightarrow> calculateRotation (the (getDataEdge (gridPosition g) d)) (the (gateEdge g)))"
    by (simp only: r rotationOfGates_find f)
  have formula: "determineBoardRotation ns d =
     (case find ?P ns of
        None \<Rightarrow> 0
      | Some g \<Rightarrow>
          ((edgeIndex (the (gateEdge g)) - (edgeIndex (dataEdge (gridPosition g) d) + 2) mod 4 + 4)
             mod 4) * 90)"
  proof (cases "find ?P ns")
    case None
    with main show ?thesis by (simp only: option.case)
  next
    case (Some g)
    then have "?P g" by (auto dest: find_Some_iff [THEN iffD1])
    then have "the (getDataEdge (gridPosition g) d) = dataEdge (gridPosition g) d"
      unfolding onBoundary_def dataEdge_def getDataEdge_the by auto
    with main Some show ?thesis by (simp only: option.case calculateRotation_formula)
  qed
  have board: "Maxroll_parseBoard boardEl boardIndex = Inr b \<longrightarrow>
      rotation b = of_int (determineBoardRotation (nodes b) (dimensions b)) \<and>
      dimensions b = getGridDimensions (buildGrid (nodes b))"
    using Maxroll_parseBoard_fields [of boardEl boardIndex b] by auto
  from formula board show ?thesis by blast
qed

theorem determineBoardRotation_first_gate_witness:
  "determineBoardRotation
     [scenario_gate 1 1 (Some EAST), scenario_gate 0 1 (Some SOUTH)] scenario_3x3 = 0 \<and>
   determineBoardRotation
     [scenario_gate 0 1 None, scenario_gate 0 1 (Some NORTH), scenario_gate 1 2 (Some EAST)]
     scenario_3x3 = 180 \<and>
   determineBoardRotation [scenario_gate 0 0 (Some EAST)] scenario_3x3 = 270 \<and>
   determineBoardRotation [scenario_gate 1 1 (Some EAST)] scenario_3x3 = 0 \<and>
   Maxroll_parseBoard maxroll_second 2 = Inr (maxroll_boards ! 1) \<and>
   rotation (maxroll_boards ! 1) =
     of_int (determineBoardRotation (nodes (maxroll_boards ! 1)) (dimensions (maxroll_boards ! 1))) \<and>
   rotation (maxroll_boards ! 1) = 180"
proof -
  note t = determineBoardRotation_first_gate [where boardEl = maxroll_second and boardIndex = 2
      and b = "maxroll_boards ! 1"]
  have a: "determineBoardRotation
     [scenario_gate 1 1 (Some EAST), scenario_gate 0 1 (Some SOUTH)] scenario_3x3 = 0"
    using t [of "[scenario_gate 1 1 (Some EAST), scenario_gate 0 1 (Some SOUTH)]" scenario_3x3]
    by (simp add: scenario_gate_def scenario_3x3_def)
  have b: "determineBoardRotation
     [scenario_gate 0 1 None, scenario_gate 0 1 (Some NORTH), scenario_gate 1 2 (Some EAST)]
     scenario_3x3 = 180"
    using t [of "[scenario_gate 0 1 None, scenario_gate 0 1 (Some NORTH), scenario_gate 1 2 (Some EAST)]"
        scenario_3x3]
    by (simp add: scenario_gate_def scenario_3x3_def)
  have c: "determineBoardRotation [scenario_gate 0 0 (Some EAST)] scenario_3x3 = 270"
    using t [of "[scenario_gate 0 0 (Some EAST)]" scenario_3x3]
    by (simp add: scenario_gate_def scenario_3x3_def)
  have d: "determineBoardRotation [scenario_gate 1 1 (Some EAST)] scenario_3x3 = 0"
    using t [of "[scenario_gate 1 1 (Some EAST)]" scenario_3x3]
    by (simp add: scenario_gate_def scenario_3x3_def)
  from t [of "[]" scenario_3x3] maxroll_second_parsed
  have e: "rotation (maxroll_boards ! 1) =
     of_int (determineBoardRotation (nodes (maxroll_boards ! 1)) (dimensions (maxroll_boards ! 1)))"
    by blast
  have f: "rotation (maxroll_boards ! 1) = 180" by (simp add: maxroll_boards_def)
  from a b c d e f maxroll_second_parsed show ?thesis by blast
qed

lemma collectNodes_mem:
  "collectNodes f els = Inr ns \<Longrightarrow> n \<in> set ns \<Longrightarrow> \<exists>el \<in> set els. f el = Inr (Some n)"
proof (induction els arbitrary: ns)
  case Nil
  then show ?case by simp
next
  case (Cons el els)
  then show ?case by (auto split: sum.splits option.splits)
qed

lemma parseBoardsFrom_mem:
  "parseBoardsFrom pb i cs = Inr bs \<Longrightarrow> b \<in> set bs \<Longrightarrow> \<exists>c \<in> set cs. \<exists>j. pb c j = Inr b"
proof (induction cs arbitrary: i bs)
  case Nil
  then show ?case by simp
next
  case (Cons c cs)
  then show ?case by (fastforce split: sum.splits if_splits)
qed

lemma Maxroll_parseNodeElement_connectsTo:
  "Maxroll_parseNodeElement el = Inr (Some n) \<Longrightarrow> connectsTo n = None"
  by (auto simp: Maxroll_parseNodeElement_def Let_def split: sum.splits option.splits)

lemma maxroll_page_parsed: "Maxroll_parseAllBoards maxroll_page = Inr maxroll_boards"
  by code_simp

lemma maxroll_boards_gates:
  "length maxroll_boards = 2 \<and> list_all (\<lambda>b. list_ex isGate (nodes b)) maxroll_boards"
  by (simp add: maxroll_boards_def scenario_gate_def)

text \<open>
  C5. \<open>calculateGateConnections\<close> of the Maxroll parser returns the boards as it got
  them, whatever they are, so it computes no connection. On the boards that
  \<open>parseAllBoards\<close> produces, \<open>connectsTo\<close> is unset, which reads as null, on every node
  of every board, gates included, in the node list and in the grid, and it stays so.
\<close>

theorem Maxroll_connections_stay_null:
  "Maxroll_calculateGateConnections boards = boards \<and>
   (Maxroll_parseAllBoards embedContainer = Inr boards \<longrightarrow>
      (\<forall>b \<in> set (Maxroll_calculateGateConnections boards).
         (\<forall>n \<in> set (nodes b). connectsTo n = None) \<and>
         (\<forall>(k, n) \<in> set (grid b). connectsTo n = None)))"
proof -
  have a: "Maxroll_calculateGateConnections boards = boards"
    by (simp add: Maxroll_calculateGateConnections_def)
  have b: "(\<forall>n \<in> set (nodes b). connectsTo n = None) \<and> (\<forall>(k, n) \<in> set (grid b). connectsTo n = None)"
    if p: "Maxroll_parseAllBoards embedContainer = Inr boards" and m: "b \<in> set boards" for b
  proof -
    from p m obtain be j where "Maxroll_parseBoard be j = Inr b"
      by (auto simp: Maxroll_parseAllBoards_def split: option.splits dest: parseBoardsFrom_mem)
    then have c: "collectNodes Maxroll_parseNodeElement (nodeElements be) = Inr (nodes b)"
      and g: "grid b = buildGrid (nodes b)"
      using Maxroll_parseBoard_fields [of be j b] by (simp_all add: Maxroll_parseNodes_def)
    have n: "connectsTo n = None" if "n \<in> set (nodes b)" for n
      using collectNodes_mem [OF c that] by (auto dest: Maxroll_parseNodeElement_connectsTo)
    then show ?thesis using g by (auto dest: buildGrid_values)
  qed
  from a b show ?thesis by simp
qed

theorem Maxroll_connections_stay_null_witness:
  "Maxroll_parseAllBoards maxroll_page = Inr maxroll_boards \<and>
   length maxroll_boards = 2 \<and>
   list_all (\<lambda>b. list_ex isGate (nodes b)) maxroll_boards \<and>
   Maxroll_calculateGateConnections maxroll_boards = maxroll_boards \<and>
   list_all (\<lambda>b. list_all (\<lambda>n. connectsTo n = None) (nodes b) \<and>
                  list_all (\<lambda>(k, n). connectsTo n = None) (grid b))
     (Maxroll_calculateGateConnections maxroll_boards)"
  using Maxroll_connections_stay_null [of maxroll_boards maxroll_page]
    maxroll_page_parsed maxroll_boards_gates
  unfolding list_all_iff by blast

section \<open>Properties of the Mobalytics gate connections\<close>














section \<open>Properties of the style parsers\<close>






































end
